theory Spec2Isabelle
  imports Main
begin

section \<open>The CloudWatch event listener of ec2-manager\<close>

text \<open>
  This theory embeds \<^verbatim>\<open>CloudWatchEventListener.__handler\<close> of
  \<^verbatim>\<open>lib/cloud-watch-event-listener.js\<close>, together with \<^verbatim>\<open>missingTags\<close> and the part of
  the constructor that derives the provisioner id.  The handler is asynchronous JavaScript
  that talks to four collaborators (the state store, the EC2 API, the tagger and the
  monitor).  It is modelled by explicit state passing over a \<open>world\<close>: the store's instance
  table, the open transactions, and the chronological lists of collaborator calls, monitor
  calls and log lines.  Every \<^verbatim>\<open>await\<close> that can reject is a call whose outcome is
  \<open>error + 'a\<close>; which calls reject in one run of the handler is given by a \<open>faults\<close>
  record (each collaborator operation is called at most once per run).
\<close>

subsection \<open>Values\<close>

text \<open>
  A JavaScript \<^verbatim>\<open>Date\<close> is either the invalid date or holds a time value, an integer
  number of milliseconds since the epoch of magnitude at most \<open>8.64 * 10^15\<close>; a time value
  beyond that does not exist (\<^verbatim>\<open>new Date\<close> clips it to the invalid date), so \<open>time_value\<close>
  reads it as not a number.  The numbers the handler computes with are time values, zero
  and their differences, or \<^verbatim>\<open>NaN\<close>.
\<close>

datatype date = Date int | Invalid_Date

datatype number = Number int | NaN

fun time_value :: "date \<Rightarrow> number" where
  "time_value (Date t) = (if \<bar>t\<bar> \<le> 8640000000000000 then Number t else NaN)"
| "time_value Invalid_Date = NaN"

text \<open>
  The column \<^verbatim>\<open>lastevent\<close> of a row read from the table: absent (\<^verbatim>\<open>undefined\<close>),
  \<^verbatim>\<open>null\<close>, or a \<^verbatim>\<open>Date\<close>.  Only a \<^verbatim>\<open>Date\<close> is truthy, also the invalid one.  As a
  number \<^verbatim>\<open>undefined\<close> is \<^verbatim>\<open>NaN\<close>, \<^verbatim>\<open>null\<close> is zero and a \<^verbatim>\<open>Date\<close> is its time value.
\<close>

datatype maybe_date = Undefined | Null | At date

fun truthy_date :: "maybe_date \<Rightarrow> bool" where
  "truthy_date (At d) = True"
| "truthy_date Null = False"
| "truthy_date Undefined = False"

fun to_number :: "maybe_date \<Rightarrow> number" where
  "to_number (At d) = time_value d"
| "to_number Null = Number 0"
| "to_number Undefined = NaN"

text \<open>
  Subtraction of doubles that hold integers of magnitude at most \<open>8.64 * 10^15\<close>.  The
  exact difference is below \<open>2^54\<close>.  Up to \<open>2^53 = 9007199254740992\<close> every integer is a
  double and the difference is exact; between \<open>2^53\<close> and \<open>2^54\<close> the doubles are the even
  integers, so an odd difference is rounded to a neighbour, the tie going to the one with
  the even significand, which is the multiple of four.
\<close>

definition double_minus :: "int \<Rightarrow> int \<Rightarrow> int" where
  "double_minus a b =
     (let d = a - b in
      if \<bar>d\<bar> \<le> 9007199254740992 then d
      else if even d then d
      else if (d + 1) mod 4 = 0 then d + 1
      else d - 1)"

text \<open>The operators \<^verbatim>\<open>-\<close> and \<^verbatim>\<open><\<close> on such numbers: \<^verbatim>\<open>NaN\<close> makes the difference
  \<^verbatim>\<open>NaN\<close> and the comparison false.\<close>

fun js_minus :: "number \<Rightarrow> number \<Rightarrow> number" where
  "js_minus (Number a) (Number b) = Number (double_minus a b)"
| "js_minus NaN y = NaN"
| "js_minus (Number a) NaN = NaN"

fun js_less :: "number \<Rightarrow> number \<Rightarrow> bool" where
  "js_less (Number a) (Number b) = (a < b)"
| "js_less NaN y = False"
| "js_less (Number a) NaN = False"

text \<open>
  What can be thrown: a failed \<^verbatim>\<open>assert\<close>, a \<^verbatim>\<open>TypeError\<close> (a property read on
  \<^verbatim>\<open>undefined\<close>), or a rejection of a collaborator, which carries the optional
  \<^verbatim>\<open>code\<close> property the handler inspects and a message.
\<close>

datatype error = AssertionError | TypeError | Failure "string option" string

fun err_code :: "error \<Rightarrow> string option" where
  "err_code (Failure c m) = c"
| "err_code AssertionError = None"
| "err_code TypeError = None"

text \<open>The decoded message body: \<^verbatim>\<open>body.region\<close>, \<^verbatim>\<open>body.detail['instance-id']\<close>,
  \<^verbatim>\<open>body.detail.state\<close> and \<^verbatim>\<open>new Date(body.time)\<close>.\<close>

record msg =
  msg_region :: string
  msg_instance_id :: string
  msg_state :: string
  msg_time :: date

text \<open>
  The object \<^verbatim>\<open>opts\<close> handed to \<^verbatim>\<open>upsertInstance\<close>, which is also the shape of a row of
  the instance table.  \<^verbatim>\<open>workerType\<close> and \<^verbatim>\<open>srid\<close> may be \<^verbatim>\<open>undefined\<close>; \<^verbatim>\<open>lastevent\<close>
  of a stored row may be \<^verbatim>\<open>null\<close> or absent.
\<close>

record opts =
  workerType :: "string option"
  region :: string
  az :: string
  instanceType :: string
  imageId :: string
  instance_id :: string
  state :: string
  launched :: date
  srid :: "string option"
  lastevent :: maybe_date

text \<open>One instance of a \<^verbatim>\<open>describeInstances\<close> response; a tag is its \<^verbatim>\<open>Key\<close> and
  \<^verbatim>\<open>Value\<close>.\<close>

record Instance =
  KeyName :: "string option"
  InstanceType :: string
  SpotInstanceRequestId :: "string option"
  AvailabilityZone :: string
  ImageId :: string
  LaunchTime :: date
  Tags :: "(string \<times> string) list option"

text \<open>Truthiness of a value that is a string or \<^verbatim>\<open>undefined\<close>: the empty string is falsy.\<close>

fun truthy :: "string option \<Rightarrow> bool" where
  "truthy None = False"
| "truthy (Some s) = (s \<noteq> [])"

subsection \<open>The world: store, transactions and what was called\<close>

datatype call =
    LogCloudWatchEvent string string string date
  | BeginTransaction
  | ListInstances string string nat
  | CommitTransaction nat
  | RollbackTransaction nat
  | UpdateInstanceState string string string date nat
  | RemoveInstance string string "nat option"
  | UpsertInstance opts
  | DescribeInstances "string list"
  | TagResources "string list" string string

datatype metric = Count string int | Measure string number | ReportError error

datatype level = Error | Info | Debug

datatype dbwrite = Update string string string date | Remove string string

record world =
  instances :: "string \<times> string \<Rightarrow> opts option"
  transactions :: "nat \<Rightarrow> dbwrite list option"
  next_transaction :: nat
  calls :: "call list"
  metrics :: "metric list"
  logs :: "(level \<times> string) list"

text \<open>The outcome of each collaborator call of one run: \<open>None\<close> is success, \<open>Some e\<close>
  the rejection.  \<^verbatim>\<open>describeInstances\<close> answers with an error or with its reservations,
  each a list of instances.\<close>

record faults =
  logCloudWatchEvent_f :: "error option"
  beginTransaction_f :: "error option"
  listInstances_f :: "error option"
  commitTransaction_f :: "error option"
  rollbackTransaction_f :: "error option"
  updateInstanceState_f :: "error option"
  removeInstance_f :: "error option"
  upsertInstance_f :: "error option"
  tagResources_f :: "error option"
  describeInstances_r :: "error + Instance list list"

definition called :: "call \<Rightarrow> world \<Rightarrow> world" where
  "called c w = w\<lparr>calls := calls w @ [c]\<rparr>"

definition respond :: "error option \<Rightarrow> world \<Rightarrow> (world \<Rightarrow> 'a \<times> world) \<Rightarrow> (error + 'a) \<times> world" where
  "respond fault w ok =
     (case fault of
        Some e \<Rightarrow> (Inl e, w)
      | None \<Rightarrow> (case ok w of (a, w') \<Rightarrow> (Inr a, w')))"

subsection \<open>The state store\<close>

text \<open>
  Modelled from the spec: the StateStore class (\<^verbatim>\<open>lib/state.js\<close>) is not part of the
  sources at hand.  Following the spec's data model and external interfaces, the instance
  table is keyed by \<open>(region, instanceId)\<close>; a transaction bounds a read-then-write
  sequence, its writes take effect at commit and are dropped at rollback; a write without
  a transaction takes effect at once; a rejected call has no effect.
\<close>

fun apply_write :: "dbwrite \<Rightarrow> (string \<times> string \<Rightarrow> opts option) \<Rightarrow> (string \<times> string \<Rightarrow> opts option)" where
  "apply_write (Update r i s t) tab =
     (case tab (r, i) of
        None \<Rightarrow> tab
      | Some row \<Rightarrow> tab((r, i) \<mapsto> row\<lparr>state := s, lastevent := At t\<rparr>))"
| "apply_write (Remove r i) tab = tab((r, i) := None)"

definition pending :: "nat \<Rightarrow> dbwrite \<Rightarrow> world \<Rightarrow> world" where
  "pending t wr w =
     (case transactions w t of
        None \<Rightarrow> w
      | Some ws \<Rightarrow> w\<lparr>transactions := (transactions w)(t \<mapsto> ws @ [wr])\<rparr>)"

definition logCloudWatchEvent ::
  "faults \<Rightarrow> string \<Rightarrow> string \<Rightarrow> string \<Rightarrow> date \<Rightarrow> world \<Rightarrow> (error + unit) \<times> world" where
  "logCloudWatchEvent f r i s g w =
     respond (logCloudWatchEvent_f f) (called (LogCloudWatchEvent r i s g) w) (\<lambda>w. ((), w))"

definition beginTransaction :: "faults \<Rightarrow> world \<Rightarrow> (error + nat) \<times> world" where
  "beginTransaction f w =
     respond (beginTransaction_f f) (called BeginTransaction w)
       (\<lambda>w. (next_transaction w,
             w\<lparr>transactions := (transactions w)(next_transaction w \<mapsto> []),
               next_transaction := Suc (next_transaction w)\<rparr>))"

definition listInstances ::
  "faults \<Rightarrow> string \<Rightarrow> string \<Rightarrow> nat \<Rightarrow> world \<Rightarrow> (error + opts list) \<times> world" where
  "listInstances f r i t w =
     respond (listInstances_f f) (called (ListInstances r i t) w)
       (\<lambda>w. (case instances w (r, i) of None \<Rightarrow> [] | Some row \<Rightarrow> [row], w))"

definition commitTransaction :: "faults \<Rightarrow> nat \<Rightarrow> world \<Rightarrow> (error + unit) \<times> world" where
  "commitTransaction f t w =
     respond (commitTransaction_f f) (called (CommitTransaction t) w)
       (\<lambda>w. ((), case transactions w t of
                    None \<Rightarrow> w
                  | Some ws \<Rightarrow> w\<lparr>instances := fold apply_write ws (instances w),
                                 transactions := (transactions w)(t := None)\<rparr>))"

definition rollbackTransaction :: "faults \<Rightarrow> nat \<Rightarrow> world \<Rightarrow> (error + unit) \<times> world" where
  "rollbackTransaction f t w =
     respond (rollbackTransaction_f f) (called (RollbackTransaction t) w)
       (\<lambda>w. ((), w\<lparr>transactions := (transactions w)(t := None)\<rparr>))"

definition updateInstanceState ::
  "faults \<Rightarrow> string \<Rightarrow> string \<Rightarrow> string \<Rightarrow> date \<Rightarrow> nat \<Rightarrow> world \<Rightarrow> (error + unit) \<times> world" where
  "updateInstanceState f r i s g t w =
     respond (updateInstanceState_f f) (called (UpdateInstanceState r i s g t) w)
       (\<lambda>w. ((), pending t (Update r i s g) w))"

definition removeInstance ::
  "faults \<Rightarrow> string \<Rightarrow> string \<Rightarrow> nat option \<Rightarrow> world \<Rightarrow> (error + unit) \<times> world" where
  "removeInstance f r i topt w =
     respond (removeInstance_f f) (called (RemoveInstance r i topt) w)
       (\<lambda>w. ((), case topt of
                    None \<Rightarrow> w\<lparr>instances := apply_write (Remove r i) (instances w)\<rparr>
                  | Some t \<Rightarrow> pending t (Remove r i) w))"

definition upsertInstance :: "faults \<Rightarrow> opts \<Rightarrow> world \<Rightarrow> (error + unit) \<times> world" where
  "upsertInstance f opt w =
     respond (upsertInstance_f f) (called (UpsertInstance opt) w)
       (\<lambda>w. ((), w\<lparr>instances := (instances w)((region opt, instance_id opt) \<mapsto> opt)\<rparr>))"

subsection \<open>The EC2 API, the tagger, the monitor and the log\<close>

text \<open>
  Modelled from the spec: \<^verbatim>\<open>runAWSRequest\<close>, the tagger, the monitor and the logger are
  not part of the sources at hand.  A call is recorded and answers as the \<open>faults\<close> record
  says; monitor and log calls do not fail.
\<close>

definition describeInstances ::
  "faults \<Rightarrow> string list \<Rightarrow> world \<Rightarrow> (error + Instance list list) \<times> world" where
  "describeInstances f ids w = (describeInstances_r f, called (DescribeInstances ids) w)"

definition tagResources ::
  "faults \<Rightarrow> string list \<Rightarrow> string \<Rightarrow> string \<Rightarrow> world \<Rightarrow> (error + unit) \<times> world" where
  "tagResources f ids wt r w =
     respond (tagResources_f f) (called (TagResources ids wt r) w) (\<lambda>w. ((), w))"

definition monitor :: "metric \<Rightarrow> world \<Rightarrow> world" where
  "monitor m w = w\<lparr>metrics := metrics w @ [m]\<rparr>"

definition log :: "level \<Rightarrow> string \<Rightarrow> world \<Rightarrow> world" where
  "log l s w = w\<lparr>logs := logs w @ [(l, s)]\<rparr>"

subsection \<open>Sequencing, \<^verbatim>\<open>throw\<close> and \<^verbatim>\<open>try\<close>/\<^verbatim>\<open>catch\<close>\<close>

definition ok :: "world \<Rightarrow> (error + unit) \<times> world" where
  "ok w = (Inr (), w)"

definition throw :: "error \<Rightarrow> world \<Rightarrow> (error + 'a) \<times> world" where
  "throw e w = (Inl e, w)"

definition then_do ::
  "(error + 'a) \<times> world \<Rightarrow> ('a \<Rightarrow> world \<Rightarrow> (error + 'b) \<times> world) \<Rightarrow> (error + 'b) \<times> world" where
  "then_do m k = (case m of (Inl e, w) \<Rightarrow> (Inl e, w) | (Inr a, w) \<Rightarrow> k a w)"

definition try_catch ::
  "(error + 'a) \<times> world \<Rightarrow> (error \<Rightarrow> world \<Rightarrow> (error + 'a) \<times> world) \<Rightarrow> (error + 'a) \<times> world" where
  "try_catch m h = (case m of (Inl e, w) \<Rightarrow> h e w | (Inr a, w) \<Rightarrow> (Inr a, w))"

subsection \<open>\<^verbatim>\<open>missingTags\<close>, the key name and the constructor\<close>

text \<open>\<^verbatim>\<open>missingTags\<close>: the loop sets \<^verbatim>\<open>hasTag\<close> at every tag whose key is \<^verbatim>\<open>Owner\<close>; an
  absent \<^verbatim>\<open>Tags\<close> is falsy, an empty array is not.\<close>

definition missingTags :: "Instance \<Rightarrow> bool" where
  "missingTags obj =
     (let hasTag =
        (case Tags obj of
           None \<Rightarrow> False
         | Some tags \<Rightarrow> fold (\<lambda>tag hasTag. if fst tag = ''Owner'' then True else hasTag) tags False)
      in \<not> hasTag)"

text \<open>\<^verbatim>\<open>String.prototype.split\<close> with a one-character separator: every occurrence of the
  separator ends a piece, so the result has one piece more than the string has
  separators, and the empty string gives one empty piece.\<close>

fun split_str :: "char \<Rightarrow> string \<Rightarrow> string list" where
  "split_str sep [] = [[]]"
| "split_str sep (c # cs) =
     (if c = sep then [] # split_str sep cs
      else (case split_str sep cs of
              [] \<Rightarrow> [[c]]
            | x # xs \<Rightarrow> (c # x) # xs))"

text \<open>The array destructuring \<^verbatim>\<open>let [a, b] = xs\<close>: the first two elements, each
  \<^verbatim>\<open>undefined\<close> when the array is too short; further elements are dropped.\<close>

fun destructure2 :: "'a list \<Rightarrow> 'a option \<times> 'a option" where
  "destructure2 [] = (None, None)"
| "destructure2 [a] = (Some a, None)"
| "destructure2 (a # b # xs) = (Some a, Some b)"

text \<open>Line 234: \<^verbatim>\<open>let [provisionerId, workerType] = instance.KeyName.split(':')\<close>.\<close>

definition split_KeyName :: "string \<Rightarrow> string option \<times> string option" where
  "split_KeyName key = destructure2 (split_str CHR '':'' key)"

text \<open>What the constructor keeps of \<^verbatim>\<open>keyPrefix\<close>: it asserts the trailing colon and
  stores the prefix without it as \<^verbatim>\<open>this.provisionerId\<close>.\<close>

record listener =
  this_provisionerId :: string
  this_keyPrefix :: string

definition new_listener :: "string \<Rightarrow> error + listener" where
  "new_listener keyPrefix =
     (if \<not> (keyPrefix \<noteq> [] \<and> last keyPrefix = CHR '':'') then Inl AssertionError
      else Inr \<lparr>this_provisionerId = take (length keyPrefix - 1) keyPrefix,
                this_keyPrefix = keyPrefix\<rparr>)"

subsection \<open>The handler\<close>

text \<open>Lines 116 to 122: the audit write; a rejection is reported and swallowed.\<close>

definition handler_audit :: "faults \<Rightarrow> string \<Rightarrow> string \<Rightarrow> string \<Rightarrow> date \<Rightarrow> world \<Rightarrow> world" where
  "handler_audit f reg iid st generated w =
     (case logCloudWatchEvent f reg iid st generated w of
        (Inl err, w1) \<Rightarrow> monitor (ReportError err) w1
      | (Inr u, w1) \<Rightarrow> w1)"

text \<open>Lines 128 to 138: the lookup inside the transaction.  The \<^verbatim>\<open>catch\<close> block rolls
  back and logs; it neither returns nor rethrows, so the handler goes on with
  \<^verbatim>\<open>dbResponse\<close> undefined.\<close>

definition handler_lookup ::
  "faults \<Rightarrow> string \<Rightarrow> string \<Rightarrow> nat \<Rightarrow> world \<Rightarrow> (error + opts option) \<times> world" where
  "handler_lookup f reg iid transaction w =
     try_catch
       (then_do (listInstances f reg iid transaction w) (\<lambda>x w1.
          if \<not> (length x = 0 \<or> length x = 1) then throw AssertionError w1
          else if length x = 1 then (Inr (Some (hd x)), w1)
          else (Inr None, w1)))
       (\<lambda>err w1.
          then_do (rollbackTransaction f transaction w1) (\<lambda>u w2.
            (Inr None, log Error ''Error looking up state from database'' w2)))"

text \<open>Lines 147 to 199: a row was found.\<close>

definition handler_db ::
  "faults \<Rightarrow> string \<Rightarrow> string \<Rightarrow> string \<Rightarrow> date \<Rightarrow> nat \<Rightarrow> opts \<Rightarrow> world \<Rightarrow> (error + unit) \<times> world" where
  "handler_db f reg iid st generated transaction dbResponse w =
     (if instance_id dbResponse \<noteq> iid then throw AssertionError w
      else if region dbResponse \<noteq> reg then throw AssertionError w
      else if truthy_date (lastevent dbResponse) \<and>
              js_less (to_number (lastevent dbResponse)) (time_value generated)
      then
        try_catch
          (then_do
             (if st = ''pending'' \<or> st = ''running''
              then then_do (updateInstanceState f reg iid st generated transaction w) (\<lambda>u w1.
                     ok (log Info ''CloudWatch Event resulting in insertion'' w1))
              else then_do (removeInstance f reg iid (Some transaction) w) (\<lambda>u w1.
                     ok (log Debug ''CloudWatch Event resulting in deletion'' w1)))
             (\<lambda>u w1. commitTransaction f transaction w1))
          (\<lambda>err w1.
             then_do (rollbackTransaction f transaction w1) (\<lambda>u w2.
               throw err (log Error ''trying to update or remove instance'' w2)))
      else
        then_do (commitTransaction f transaction w) (\<lambda>u w1.
          let w2 = monitor (Count ''global.cwe-out-of-order.count'' 1) w1;
              w3 = monitor (Count (reg @ ''.cwe-out-of-order.count'') 1) w2;
              delay = js_minus (to_number (lastevent dbResponse)) (time_value generated);
              w4 = monitor (Measure ''global.cwe-out-of-order.delay'' delay) w3;
              w5 = monitor (Measure (reg @ ''.cwe-out-of-order.delay'') delay) w4
          in ok (log Info ''CloudWatch Event delivered out of order'' w5)))"

text \<open>Lines 200 to 271: no row, and the state is pending or running.\<close>

definition handler_api ::
  "listener \<Rightarrow> faults \<Rightarrow> string \<Rightarrow> string \<Rightarrow> string \<Rightarrow> date \<Rightarrow> world \<Rightarrow> (error + unit) \<times> world" where
  "handler_api this f reg iid st generated w =
     then_do
       (try_catch (describeInstances f [iid] w) (\<lambda>err w1.
          throw err
            (if err_code err \<noteq> Some ''InvalidInstanceID.NotFound''
             then monitor (ReportError err) w1
             else monitor (Count (reg @ ''.api-lag'') 1) (monitor (Count ''global.api-lag'' 1) w1))))
       (\<lambda>Reservations w1.
          if length Reservations \<noteq> 1 then throw AssertionError w1
          else if length (hd Reservations) \<noteq> 1 then throw AssertionError w1
          else
            let inst = hd (hd Reservations) in
            (case KeyName inst of
               None \<Rightarrow> throw TypeError w1
             | Some key \<Rightarrow>
                 (case split_KeyName key of (provisionerId, workerType') \<Rightarrow>
                    let srid' = (if truthy (SpotInstanceRequestId inst)
                                 then SpotInstanceRequestId inst else None)
                    in
                    then_do
                      (if truthy workerType' \<and> missingTags inst
                       then tagResources f [iid] (case workerType' of Some wt \<Rightarrow> wt | None \<Rightarrow> []) reg w1
                       else ok w1)
                      (\<lambda>u w2.
                         let opt = \<lparr>workerType = workerType', region = reg,
                                    az = AvailabilityZone inst, instanceType = InstanceType inst,
                                    imageId = ImageId inst, instance_id = iid, state = st,
                                    launched = LaunchTime inst, srid = srid',
                                    lastevent = At generated\<rparr>
                         in
                         if truthy workerType' \<and> provisionerId = Some (this_provisionerId this)
                         then then_do (upsertInstance f opt w2) (\<lambda>u w3.
                                ok (log Info ''CloudWatch Event resulting in insertion'' w3))
                         else ok (log Debug
                                ''Ignoring instance because it does not belong to this manager'' w2)))))"

text \<open>Lines 272 to 282: no row, any other state.\<close>

definition handler_remove :: "faults \<Rightarrow> string \<Rightarrow> string \<Rightarrow> world \<Rightarrow> (error + unit) \<times> world" where
  "handler_remove f reg iid w =
     then_do (removeInstance f reg iid None w) (\<lambda>u w1.
       ok (log Debug ''CloudWatch Event resulting in deletion'' w1))"

text \<open>\<^verbatim>\<open>__handler\<close>, from the decoded body on.\<close>

definition handler :: "listener \<Rightarrow> faults \<Rightarrow> msg \<Rightarrow> world \<Rightarrow> (error + unit) \<times> world" where
  "handler this f body w =
     (let reg = msg_region body;
          iid = msg_instance_id body;
          st = msg_state body;
          generated = msg_time body;
          w1 = handler_audit f reg iid st generated w
      in
      then_do (beginTransaction f w1) (\<lambda>transaction w2.
        then_do (handler_lookup f reg iid transaction w2) (\<lambda>dbResponse w3.
          then_do (if dbResponse = None then commitTransaction f transaction w3 else ok w3) (\<lambda>u w4.
            case dbResponse of
              Some row \<Rightarrow> handler_db f reg iid st generated transaction row w4
            | None \<Rightarrow>
                if st = ''pending'' \<or> st = ''running''
                then handler_api this f reg iid st generated w4
                else handler_remove f reg iid w4))))"

subsection \<open>Auxiliary notions for the statements\<close>

text \<open>The monitor calls of the audit step: none, or the report of its rejection.\<close>

definition audit_reports :: "faults \<Rightarrow> metric list" where
  "audit_reports f = (case logCloudWatchEvent_f f of None \<Rightarrow> [] | Some e \<Rightarrow> [ReportError e])"

text \<open>The calls every run starts with when the transaction can be opened: the audit
  write, \<^verbatim>\<open>beginTransaction\<close> and the lookup inside transaction \<open>t\<close>.\<close>

definition lookup_calls :: "msg \<Rightarrow> nat \<Rightarrow> call list" where
  "lookup_calls body t =
     [LogCloudWatchEvent (msg_region body) (msg_instance_id body) (msg_state body) (msg_time body),
      BeginTransaction,
      ListInstances (msg_region body) (msg_instance_id body) t]"


text \<open>The split as the specification words it, for comparison with \<open>split_KeyName\<close>: the
  key name is cut at its first separator only, the provisioner id is what precedes it and
  the worker type everything that follows it; without a separator there is no worker
  type.\<close>

definition split_at_first_separator :: "string \<Rightarrow> string option \<times> string option" where
  "split_at_first_separator key =
     (Some (takeWhile (\<lambda>c. c \<noteq> CHR '':'') key),
      if CHR '':'' \<in> set key then Some (tl (dropWhile (\<lambda>c. c \<noteq> CHR '':'') key)) else None)"

text \<open>Concrete inputs: a run without rejections, a listener for the provisioner
  \<^verbatim>\<open>aws-provisioner-v1\<close>, an untagged instance of that provisioner, an empty store and a
  store that tracks the instance \<^verbatim>\<open>i-1\<close> with last event at time 20.\<close>

definition no_faults :: faults where
  "no_faults =
     \<lparr>logCloudWatchEvent_f = None, beginTransaction_f = None, listInstances_f = None,
      commitTransaction_f = None, rollbackTransaction_f = None, updateInstanceState_f = None,
      removeInstance_f = None, upsertInstance_f = None, tagResources_f = None,
      describeInstances_r = Inr []\<rparr>"

definition example_listener :: listener where
  "example_listener =
     \<lparr>this_provisionerId = ''aws-provisioner-v1'', this_keyPrefix = ''aws-provisioner-v1:''\<rparr>"

definition example_instance :: Instance where
  "example_instance =
     \<lparr>KeyName = Some ''aws-provisioner-v1:builder:abc'', InstanceType = ''m3.large'',
      SpotInstanceRequestId = Some ''sir-1'', AvailabilityZone = ''us-east-1a'',
      ImageId = ''ami-1'', LaunchTime = Date 5, Tags = None\<rparr>"

definition example_row :: opts where
  "example_row =
     \<lparr>workerType = Some ''builder'', region = ''us-east-1'', az = ''us-east-1a'',
      instanceType = ''m3.large'', imageId = ''ami-1'', instance_id = ''i-1'',
      state = ''pending'', launched = Date 5, srid = Some ''sir-1'',
      lastevent = At (Date 20)\<rparr>"

definition empty_world :: world where
  "empty_world =
     \<lparr>instances = Map.empty, transactions = Map.empty, next_transaction = 0,
      calls = [], metrics = [], logs = []\<rparr>"

definition tracking_world :: world where
  "tracking_world = empty_world\<lparr>instances := [(''us-east-1'', ''i-1'') \<mapsto> example_row]\<rparr>"

definition example_msg :: "string \<Rightarrow> int \<Rightarrow> msg" where
  "example_msg st generated =
     \<lparr>msg_region = ''us-east-1'', msg_instance_id = ''i-1'', msg_state = st,
      msg_time = Date generated\<rparr>"

section \<open>Properties\<close>

lemmas store_defs = called_def respond_def pending_def logCloudWatchEvent_def
  beginTransaction_def listInstances_def commitTransaction_def rollbackTransaction_def
  updateInstanceState_def removeInstance_def upsertInstance_def describeInstances_def
  tagResources_def monitor_def log_def

lemmas control_defs = ok_def throw_def then_do_def try_catch_def

lemmas handler_defs = handler_def handler_lookup_def handler_db_def handler_api_def
  handler_remove_def store_defs control_defs Let_def lookup_calls_def

lemmas example_defs = no_faults_def example_listener_def example_instance_def example_row_def
  empty_world_def tracking_world_def example_msg_def

lemma double_minus_exact:
  "\<bar>a - b\<bar> \<le> 9007199254740992 \<Longrightarrow> double_minus a b = a - b"
  by (simp add: double_minus_def)

lemma double_minus_tie:
  "double_minus 8640000000000000 (- 8639999999999999) = 17280000000000000"
  by (simp add: double_minus_def)

lemma handler_audit_eq:
  "handler_audit f r i s g w =
     w\<lparr>calls := calls w @ [LogCloudWatchEvent r i s g], metrics := metrics w @ audit_reports f\<rparr>"
  by (simp add: handler_audit_def audit_reports_def store_defs split: option.splits)

subsection \<open>A failed lookup\<close>

text \<open>
  C1 (the code departs from it).  The claim: if the transactional lookup fails, the
  handler rolls back and stops, with no further store write, commit, provider call or
  tagging call.  In the code the \<^verbatim>\<open>catch\<close> block of the lookup rolls back and logs, and
  control then falls through with \<^verbatim>\<open>dbResponse\<close> undefined: the rolled-back transaction is
  committed and the no-record branches run.  Here the store tracks \<^verbatim>\<open>i-1\<close> with last event
  20, the lookup is rejected, and a \<^verbatim>\<open>terminated\<close> notification generated at 10 arrives:
  the handler commits after the rollback, removes the row and returns normally.
\<close>

theorem lookup_failure_falls_through:
  "fst (handler example_listener
          (no_faults\<lparr>listInstances_f := Some (Failure None ''connection terminated'')\<rparr>)
          (example_msg ''terminated'' 10) tracking_world) = Inr () \<and>
   calls (snd (handler example_listener
          (no_faults\<lparr>listInstances_f := Some (Failure None ''connection terminated'')\<rparr>)
          (example_msg ''terminated'' 10) tracking_world)) =
     [LogCloudWatchEvent ''us-east-1'' ''i-1'' ''terminated'' (Date 10),
      BeginTransaction,
      ListInstances ''us-east-1'' ''i-1'' 0,
      RollbackTransaction 0,
      CommitTransaction 0,
      RemoveInstance ''us-east-1'' ''i-1'' None] \<and>
   instances tracking_world (''us-east-1'', ''i-1'') = Some example_row \<and>
   instances (snd (handler example_listener
          (no_faults\<lparr>listInstances_f := Some (Failure None ''connection terminated'')\<rparr>)
          (example_msg ''terminated'' 10) tracking_world)) (''us-east-1'', ''i-1'') = None"
  by (simp add: handler_def handler_audit_eq handler_lookup_def handler_remove_def
      audit_reports_def store_defs control_defs example_defs Let_def)

subsection \<open>A row was found\<close>

text \<open>
  C2 (the code departs from it).  The claim: a notification for an instance that has a
  row, generated no later than the row's \<open>lastevent\<close>, never mutates the row, so that
  \<open>lastevent\<close> never decreases.  When the lookup is rejected the handler goes on as if
  there were no row (the slip of C1), and the branch for instances without a row does not
  compare times.  Here the store tracks \<^verbatim>\<open>i-1\<close> with last event 20, the lookup is
  rejected, and a \<^verbatim>\<open>pending\<close> notification generated at 10 arrives: the handler asks the
  provider, tags, upserts and returns normally; the row's \<open>lastevent\<close> goes from 20 back
  to 10 and no out-of-order counter is incremented.
\<close>

theorem stale_notification_overwrites_row:
  "fst (handler example_listener
          (no_faults\<lparr>listInstances_f := Some (Failure None ''connection terminated''),
             describeInstances_r := Inr [[example_instance]]\<rparr>)
          (example_msg ''pending'' 10) tracking_world) = Inr () \<and>
   calls (snd (handler example_listener
          (no_faults\<lparr>listInstances_f := Some (Failure None ''connection terminated''),
             describeInstances_r := Inr [[example_instance]]\<rparr>)
          (example_msg ''pending'' 10) tracking_world)) =
     [LogCloudWatchEvent ''us-east-1'' ''i-1'' ''pending'' (Date 10),
      BeginTransaction,
      ListInstances ''us-east-1'' ''i-1'' 0,
      RollbackTransaction 0,
      CommitTransaction 0,
      DescribeInstances [''i-1''],
      TagResources [''i-1''] ''builder'' ''us-east-1'',
      UpsertInstance (example_row\<lparr>lastevent := At (Date 10)\<rparr>)] \<and>
   metrics (snd (handler example_listener
          (no_faults\<lparr>listInstances_f := Some (Failure None ''connection terminated''),
             describeInstances_r := Inr [[example_instance]]\<rparr>)
          (example_msg ''pending'' 10) tracking_world)) = [] \<and>
   lastevent example_row = At (Date 20) \<and>
   instances tracking_world (''us-east-1'', ''i-1'') = Some example_row \<and>
   instances (snd (handler example_listener
          (no_faults\<lparr>listInstances_f := Some (Failure None ''connection terminated''),
             describeInstances_r := Inr [[example_instance]]\<rparr>)
          (example_msg ''pending'' 10) tracking_world)) (''us-east-1'', ''i-1'') =
     Some (example_row\<lparr>lastevent := At (Date 10)\<rparr>)"
  by (simp add: handler_def handler_audit_eq handler_lookup_def handler_api_def
      audit_reports_def store_defs control_defs example_defs Let_def split_KeyName_def
      missingTags_def)

text \<open>
  When the lookup returns the row, the stale notification is dropped as the claim says:
  the table is unchanged, the only calls are the audit write, the lookup and the commit,
  and when the commit succeeds the handler returns normally after incrementing both
  out-of-order counters and measuring the delay, the difference of the two time values
  as doubles.  And whatever the notification, the row that is there after the run, if
  any, carries a \<open>lastevent\<close> at least as large as before.
\<close>

lemma stale_notification_dropped:
  assumes run: "handler this f body w = (res, w')"
    and "beginTransaction_f f = None" and "listInstances_f f = None"
    and "instances w (msg_region body, msg_instance_id body) = Some row"
    and "region row = msg_region body" and "instance_id row = msg_instance_id body"
    and "lastevent row = At d" and "time_value d = Number le"
  shows "(\<forall>g. time_value (msg_time body) = Number g \<and> g \<le> le \<longrightarrow>
           instances w' = instances w \<and>
           calls w' = calls w @ lookup_calls body (next_transaction w) @
             [CommitTransaction (next_transaction w)] \<and>
           (commitTransaction_f f = None \<longrightarrow>
              res = Inr () \<and>
              metrics w' = metrics w @ audit_reports f @
                [Count ''global.cwe-out-of-order.count'' 1,
                 Count (msg_region body @ ''.cwe-out-of-order.count'') 1,
                 Measure ''global.cwe-out-of-order.delay'' (Number (double_minus le g)),
                 Measure (msg_region body @ ''.cwe-out-of-order.delay'')
                   (Number (double_minus le g))])) \<and>
         (\<forall>row'. instances w' (msg_region body, msg_instance_id body) = Some row' \<longrightarrow>
            (\<exists>d' le'. lastevent row' = At d' \<and> time_value d' = Number le' \<and> le \<le> le'))"
proof -
  have res: "res = fst (handler this f body w)" and w': "w' = snd (handler this f body w)"
    using run by simp_all
  show ?thesis
    unfolding res w' using assms(2-)
    by (cases "time_value (msg_time body)")
       (auto simp add: handler_defs handler_audit_eq split: option.splits)
qed

text \<open>
  The delay is the difference of the two time values as doubles: for the latest
  representable \<open>lastevent\<close> and a notification generated one millisecond after the
  earliest representable time, the exact difference is odd and beyond \<open>2^53\<close>, and the
  handler measures the even neighbour; for a notification with an invalid date it
  measures \<^verbatim>\<open>NaN\<close>.
\<close>

lemma out_of_order_delay_is_a_double:
  "metrics (snd (handler example_listener no_faults (example_msg ''running'' (- 8639999999999999))
      (empty_world\<lparr>instances :=
         [(''us-east-1'', ''i-1'') \<mapsto> example_row\<lparr>lastevent := At (Date 8640000000000000)\<rparr>]\<rparr>))) =
     [Count ''global.cwe-out-of-order.count'' 1,
      Count ''us-east-1.cwe-out-of-order.count'' 1,
      Measure ''global.cwe-out-of-order.delay'' (Number 17280000000000000),
      Measure ''us-east-1.cwe-out-of-order.delay'' (Number 17280000000000000)] \<and>
   metrics (snd (handler example_listener no_faults
      \<lparr>msg_region = ''us-east-1'', msg_instance_id = ''i-1'', msg_state = ''running'',
        msg_time = Invalid_Date\<rparr> tracking_world)) =
     [Count ''global.cwe-out-of-order.count'' 1,
      Count ''us-east-1.cwe-out-of-order.count'' 1,
      Measure ''global.cwe-out-of-order.delay'' NaN,
      Measure ''us-east-1.cwe-out-of-order.delay'' NaN]"
  by (simp add: handler_defs handler_audit_eq audit_reports_def example_defs double_minus_def)

text \<open>
  C10.  A row whose \<open>lastevent\<close> is null or absent is never updated or deleted by the branch
  for found rows: whatever the notification's state and however new its time, the
  instance table is unchanged and the only calls are the audit write, the lookup and the
  commit; when the commit succeeds the handler returns normally after incrementing both
  out-of-order counters.  The delay it measures is \<open>null - generated\<close>, that is
  \<open>0 - generated\<close>, for a null \<open>lastevent\<close> and a valid time, and \<^verbatim>\<open>NaN\<close> otherwise.
\<close>

theorem null_lastevent_never_mutated:
  assumes run: "handler this f body w = (res, w')"
    and "beginTransaction_f f = None" and "listInstances_f f = None"
    and "instances w (msg_region body, msg_instance_id body) = Some row"
    and "region row = msg_region body" and "instance_id row = msg_instance_id body"
    and "lastevent row = Null \<or> lastevent row = Undefined"
    and delay: "delay = (case (lastevent row, time_value (msg_time body)) of
                          (Null, Number g) \<Rightarrow> Number (0 - g)
                        | _ \<Rightarrow> NaN)"
  shows "instances w' = instances w \<and>
         calls w' = calls w @ lookup_calls body (next_transaction w) @
           [CommitTransaction (next_transaction w)] \<and>
         (commitTransaction_f f = None \<longrightarrow>
            res = Inr () \<and>
            metrics w' = metrics w @ audit_reports f @
              [Count ''global.cwe-out-of-order.count'' 1,
               Count (msg_region body @ ''.cwe-out-of-order.count'') 1,
               Measure ''global.cwe-out-of-order.delay'' delay,
               Measure (msg_region body @ ''.cwe-out-of-order.delay'') delay])"
proof -
  have res: "res = fst (handler this f body w)" and w': "w' = snd (handler this f body w)"
    using run by simp_all
  have d: "js_minus (to_number (lastevent row)) (time_value (msg_time body)) = delay"
    unfolding delay using assms(7)
    by (cases "msg_time body")
       (auto simp add: double_minus_exact split: number.splits)
  show ?thesis
    unfolding res w' using assms(2-7) d
    by (cases "commitTransaction_f f") (auto simp add: handler_defs handler_audit_eq)
qed

theorem null_lastevent_never_mutated_witness:
  "instances (snd (handler example_listener no_faults (example_msg ''terminated'' 99)
       (empty_world\<lparr>instances := [(''us-east-1'', ''i-1'') \<mapsto> example_row\<lparr>lastevent := Null\<rparr>]\<rparr>)))
     = [(''us-east-1'', ''i-1'') \<mapsto> example_row\<lparr>lastevent := Null\<rparr>] \<and>
   calls (snd (handler example_listener no_faults (example_msg ''terminated'' 99)
       (empty_world\<lparr>instances := [(''us-east-1'', ''i-1'') \<mapsto> example_row\<lparr>lastevent := Null\<rparr>]\<rparr>))) =
     [LogCloudWatchEvent ''us-east-1'' ''i-1'' ''terminated'' (Date 99), BeginTransaction,
      ListInstances ''us-east-1'' ''i-1'' 0, CommitTransaction 0] \<and>
   fst (handler example_listener no_faults (example_msg ''terminated'' 99)
       (empty_world\<lparr>instances := [(''us-east-1'', ''i-1'') \<mapsto> example_row\<lparr>lastevent := Null\<rparr>]\<rparr>))
     = Inr () \<and>
   metrics (snd (handler example_listener no_faults (example_msg ''terminated'' 99)
       (empty_world\<lparr>instances := [(''us-east-1'', ''i-1'') \<mapsto> example_row\<lparr>lastevent := Null\<rparr>]\<rparr>))) =
     [Count ''global.cwe-out-of-order.count'' 1,
      Count ''us-east-1.cwe-out-of-order.count'' 1,
      Measure ''global.cwe-out-of-order.delay'' (Number (- 99)),
      Measure ''us-east-1.cwe-out-of-order.delay'' (Number (- 99))] \<and>
   metrics (snd (handler example_listener no_faults (example_msg ''running'' 99)
       (empty_world\<lparr>instances :=
          [(''us-east-1'', ''i-1'') \<mapsto> example_row\<lparr>lastevent := Undefined\<rparr>]\<rparr>))) =
     [Count ''global.cwe-out-of-order.count'' 1,
      Count ''us-east-1.cwe-out-of-order.count'' 1,
      Measure ''global.cwe-out-of-order.delay'' NaN,
      Measure ''us-east-1.cwe-out-of-order.delay'' NaN]"
proof -
  let ?wa = "empty_world\<lparr>instances :=
               [(''us-east-1'', ''i-1'') \<mapsto> example_row\<lparr>lastevent := Null\<rparr>]\<rparr>"
  let ?wb = "empty_world\<lparr>instances :=
               [(''us-east-1'', ''i-1'') \<mapsto> example_row\<lparr>lastevent := Undefined\<rparr>]\<rparr>"
  let ?A = "handler example_listener no_faults (example_msg ''terminated'' 99) ?wa"
  let ?B = "handler example_listener no_faults (example_msg ''running'' 99) ?wb"
  have a: "instances (snd ?A) = [(''us-east-1'', ''i-1'') \<mapsto> example_row\<lparr>lastevent := Null\<rparr>] \<and>
     calls (snd ?A) =
       [LogCloudWatchEvent ''us-east-1'' ''i-1'' ''terminated'' (Date 99), BeginTransaction,
        ListInstances ''us-east-1'' ''i-1'' 0, CommitTransaction 0] \<and>
     fst ?A = Inr () \<and>
     metrics (snd ?A) =
       [Count ''global.cwe-out-of-order.count'' 1,
        Count ''us-east-1.cwe-out-of-order.count'' 1,
        Measure ''global.cwe-out-of-order.delay'' (Number (- 99)),
        Measure ''us-east-1.cwe-out-of-order.delay'' (Number (- 99))]"
    using null_lastevent_never_mutated
      [where this = example_listener and f = no_faults and body = "example_msg ''terminated'' 99"
         and w = ?wa and res = "fst ?A" and w' = "snd ?A"
         and row = "example_row\<lparr>lastevent := Null\<rparr>" and delay = "Number (- 99)"]
    by (simp add: example_defs audit_reports_def lookup_calls_def)
  have b: "metrics (snd ?B) =
       [Count ''global.cwe-out-of-order.count'' 1,
        Count ''us-east-1.cwe-out-of-order.count'' 1,
        Measure ''global.cwe-out-of-order.delay'' NaN,
        Measure ''us-east-1.cwe-out-of-order.delay'' NaN]"
    using null_lastevent_never_mutated
      [where this = example_listener and f = no_faults and body = "example_msg ''running'' 99"
         and w = ?wb and res = "fst ?B" and w' = "snd ?B"
         and row = "example_row\<lparr>lastevent := Undefined\<rparr>" and delay = NaN]
    by (simp add: example_defs audit_reports_def lookup_calls_def)
  show ?thesis using a b by simp
qed

text \<open>
  C3.  A notification for an instance whose row the lookup returns, generated strictly
  after the row's \<open>lastevent\<close> (both are dates with a time value, and the row's is the
  smaller).  If its state is pending or running, the row's state and
  \<open>lastevent\<close> are updated inside the transaction, which is then committed; otherwise the
  row is removed inside the transaction, which is then committed.  If the write is
  rejected, or the commit after it, the transaction is rolled back, the table is left as
  it was, and the handler raises the error of the write (of the commit), unless the
  rollback is rejected too, in which case it raises the rollback's error.
\<close>

theorem newer_notification_applied:
  assumes run: "handler this f body w = (res, w')"
    and "beginTransaction_f f = None" and "listInstances_f f = None"
    and "instances w (msg_region body, msg_instance_id body) = Some row"
    and "region row = msg_region body" and "instance_id row = msg_instance_id body"
    and "lastevent row = At d" and "time_value d = Number le"
    and "time_value (msg_time body) = Number g" and "le < g"
    and t: "t = next_transaction w"
    and wr: "wr = (if msg_state body = ''pending'' \<or> msg_state body = ''running''
                   then UpdateInstanceState (msg_region body) (msg_instance_id body)
                          (msg_state body) (msg_time body) t
                   else RemoveInstance (msg_region body) (msg_instance_id body) (Some t))"
    and fault: "fault = (if msg_state body = ''pending'' \<or> msg_state body = ''running''
                   then updateInstanceState_f f else removeInstance_f f)"
  shows "(fault = None \<and> commitTransaction_f f = None \<longrightarrow>
            res = Inr () \<and>
            calls w' = calls w @ lookup_calls body t @ [wr, CommitTransaction t] \<and>
            instances w' =
              (if msg_state body = ''pending'' \<or> msg_state body = ''running''
               then (instances w)((msg_region body, msg_instance_id body) \<mapsto>
                      row\<lparr>state := msg_state body, lastevent := At (msg_time body)\<rparr>)
               else (instances w)((msg_region body, msg_instance_id body) := None)) \<and>
            transactions w' = (transactions w)(t := None)) \<and>
         (\<forall>e. fault = Some e \<longrightarrow>
            res = Inl (case rollbackTransaction_f f of None \<Rightarrow> e | Some e' \<Rightarrow> e') \<and>
            calls w' = calls w @ lookup_calls body t @ [wr, RollbackTransaction t] \<and>
            instances w' = instances w) \<and>
         (\<forall>e. fault = None \<and> commitTransaction_f f = Some e \<longrightarrow>
            res = Inl (case rollbackTransaction_f f of None \<Rightarrow> e | Some e' \<Rightarrow> e') \<and>
            calls w' = calls w @ lookup_calls body t @
              [wr, CommitTransaction t, RollbackTransaction t] \<and>
            instances w' = instances w)"
proof -
  have res: "res = fst (handler this f body w)" and w': "w' = snd (handler this f body w)"
    using run by simp_all
  show ?thesis
  proof (cases "msg_state body = ''pending'' \<or> msg_state body = ''running''")
    case True
    then show ?thesis
      unfolding res w' t wr fault using assms(2-10)
      by (cases "updateInstanceState_f f"; cases "commitTransaction_f f";
          cases "rollbackTransaction_f f")
         (simp_all add: handler_defs handler_audit_eq)
  next
    case False
    then show ?thesis
      unfolding res w' t wr fault using assms(2-10)
      by (cases "removeInstance_f f"; cases "commitTransaction_f f";
          cases "rollbackTransaction_f f")
         (simp_all add: handler_defs handler_audit_eq)
  qed
qed

theorem newer_notification_applied_witness:
  "fst (handler example_listener no_faults (example_msg ''running'' 30) tracking_world) = Inr () \<and>
   calls (snd (handler example_listener no_faults (example_msg ''running'' 30) tracking_world)) =
     [LogCloudWatchEvent ''us-east-1'' ''i-1'' ''running'' (Date 30), BeginTransaction,
      ListInstances ''us-east-1'' ''i-1'' 0,
      UpdateInstanceState ''us-east-1'' ''i-1'' ''running'' (Date 30) 0, CommitTransaction 0] \<and>
   instances (snd (handler example_listener no_faults (example_msg ''running'' 30) tracking_world))
       (''us-east-1'', ''i-1'') =
     Some (example_row\<lparr>state := ''running'', lastevent := At (Date 30)\<rparr>) \<and>
   fst (handler example_listener (no_faults\<lparr>removeInstance_f := Some (Failure None ''deadlock'')\<rparr>)
        (example_msg ''terminated'' 30) tracking_world) = Inl (Failure None ''deadlock'') \<and>
   calls (snd (handler example_listener
        (no_faults\<lparr>removeInstance_f := Some (Failure None ''deadlock'')\<rparr>)
        (example_msg ''terminated'' 30) tracking_world)) =
     [LogCloudWatchEvent ''us-east-1'' ''i-1'' ''terminated'' (Date 30), BeginTransaction,
      ListInstances ''us-east-1'' ''i-1'' 0,
      RemoveInstance ''us-east-1'' ''i-1'' (Some 0), RollbackTransaction 0] \<and>
   instances (snd (handler example_listener
        (no_faults\<lparr>removeInstance_f := Some (Failure None ''deadlock'')\<rparr>)
        (example_msg ''terminated'' 30) tracking_world)) = instances tracking_world"
proof -
  let ?g = "no_faults\<lparr>removeInstance_f := Some (Failure None ''deadlock'')\<rparr>"
  let ?A = "handler example_listener no_faults (example_msg ''running'' 30) tracking_world"
  let ?B = "handler example_listener ?g (example_msg ''terminated'' 30) tracking_world"
  have row: "instances tracking_world
      (msg_region (example_msg ''running'' 30), msg_instance_id (example_msg ''running'' 30)) =
      Some example_row"
    "instances tracking_world
      (msg_region (example_msg ''terminated'' 30), msg_instance_id (example_msg ''terminated'' 30)) =
      Some example_row"
    by (simp_all add: example_defs)
  have a: "(None::error option) = None \<and> commitTransaction_f no_faults = None \<longrightarrow>
      fst ?A = Inr () \<and>
      calls (snd ?A) = calls tracking_world @ lookup_calls (example_msg ''running'' 30) 0 @
        [UpdateInstanceState ''us-east-1'' ''i-1'' ''running'' (Date 30) 0, CommitTransaction 0] \<and>
      instances (snd ?A) =
        (if msg_state (example_msg ''running'' 30) = ''pending'' \<or>
            msg_state (example_msg ''running'' 30) = ''running''
         then (instances tracking_world)
                ((msg_region (example_msg ''running'' 30),
                  msg_instance_id (example_msg ''running'' 30)) \<mapsto>
                 example_row\<lparr>state := msg_state (example_msg ''running'' 30),
                   lastevent := At (msg_time (example_msg ''running'' 30))\<rparr>)
         else (instances tracking_world)
                ((msg_region (example_msg ''running'' 30),
                  msg_instance_id (example_msg ''running'' 30)) := None)) \<and>
      transactions (snd ?A) = (transactions tracking_world)(0 := None)"
    by (rule newer_notification_applied
          [of example_listener no_faults "example_msg ''running'' 30" tracking_world
              "fst ?A" "snd ?A" example_row "Date 20" 20 30 0
              "UpdateInstanceState ''us-east-1'' ''i-1'' ''running'' (Date 30) 0" None,
           THEN conjunct1])
       (simp_all add: row, simp_all add: example_defs)
  have b: "\<forall>e. Some (Failure None ''deadlock'') = Some e \<longrightarrow>
      fst ?B = Inl (case rollbackTransaction_f ?g of None \<Rightarrow> e | Some e' \<Rightarrow> e') \<and>
      calls (snd ?B) = calls tracking_world @ lookup_calls (example_msg ''terminated'' 30) 0 @
        [RemoveInstance ''us-east-1'' ''i-1'' (Some 0), RollbackTransaction 0] \<and>
      instances (snd ?B) = instances tracking_world"
    by (rule newer_notification_applied
          [of example_listener ?g "example_msg ''terminated'' 30" tracking_world
              "fst ?B" "snd ?B" example_row "Date 20" 20 30 0
              "RemoveInstance ''us-east-1'' ''i-1'' (Some 0)" "Some (Failure None ''deadlock'')",
           THEN conjunct2, THEN conjunct1])
       (simp_all add: row, simp_all add: example_defs)
  from a have a': "fst ?A = Inr ()"
    "calls (snd ?A) = calls tracking_world @ lookup_calls (example_msg ''running'' 30) 0 @
        [UpdateInstanceState ''us-east-1'' ''i-1'' ''running'' (Date 30) 0, CommitTransaction 0]"
    "instances (snd ?A) (''us-east-1'', ''i-1'') =
       Some (example_row\<lparr>state := ''running'', lastevent := At (Date 30)\<rparr>)"
    by (simp_all add: no_faults_def example_msg_def)
  from b have b': "fst ?B = Inl (Failure None ''deadlock'')"
    "calls (snd ?B) = calls tracking_world @ lookup_calls (example_msg ''terminated'' 30) 0 @
        [RemoveInstance ''us-east-1'' ''i-1'' (Some 0), RollbackTransaction 0]"
    "instances (snd ?B) = instances tracking_world"
    by (simp_all add: no_faults_def)
  have c: "calls tracking_world = []"
    "lookup_calls (example_msg st g) 0 =
       [LogCloudWatchEvent ''us-east-1'' ''i-1'' st (Date g), BeginTransaction,
        ListInstances ''us-east-1'' ''i-1'' 0]" for st g
    by (simp_all add: example_defs lookup_calls_def)
  show ?thesis
    using a' b' by (simp add: c)
qed

subsection \<open>No row was found\<close>

text \<open>
  C7.  No row is found, the state is pending or running, and \<^verbatim>\<open>describeInstances\<close> is
  rejected.  If the error's code is \<^verbatim>\<open>InvalidInstanceID.NotFound\<close>, the global and the
  regional API-lag counter are incremented and the error is not reported to the monitor;
  for any other error the error is reported.  In both cases the handler raises that
  error, \<^verbatim>\<open>describeInstances\<close> is its last call (no tagging, no upsert), and the instance
  table is unchanged.
\<close>

theorem api_lookup_failure:
  assumes run: "handler this f body w = (res, w')"
    and "beginTransaction_f f = None" and "listInstances_f f = None"
    and "commitTransaction_f f = None"
    and "instances w (msg_region body, msg_instance_id body) = None"
    and "msg_state body = ''pending'' \<or> msg_state body = ''running''"
    and "describeInstances_r f = Inl err"
  shows "res = Inl err \<and>
         calls w' = calls w @ lookup_calls body (next_transaction w) @
           [CommitTransaction (next_transaction w), DescribeInstances [msg_instance_id body]] \<and>
         instances w' = instances w \<and>
         metrics w' = metrics w @ audit_reports f @
           (if err_code err = Some ''InvalidInstanceID.NotFound''
            then [Count ''global.api-lag'' 1, Count (msg_region body @ ''.api-lag'') 1]
            else [ReportError err])"
proof -
  have res: "res = fst (handler this f body w)" and w': "w' = snd (handler this f body w)"
    using run by simp_all
  show ?thesis
    unfolding res w' using assms(2-)
    by (auto simp add: handler_defs handler_audit_eq)
qed

theorem api_lookup_failure_witness:
  "fst (handler example_listener
         (no_faults\<lparr>describeInstances_r :=
            Inl (Failure (Some ''InvalidInstanceID.NotFound'') ''not found'')\<rparr>)
         (example_msg ''pending'' 10) empty_world) =
     Inl (Failure (Some ''InvalidInstanceID.NotFound'') ''not found'') \<and>
   calls (snd (handler example_listener
         (no_faults\<lparr>describeInstances_r :=
            Inl (Failure (Some ''InvalidInstanceID.NotFound'') ''not found'')\<rparr>)
         (example_msg ''pending'' 10) empty_world)) =
     [LogCloudWatchEvent ''us-east-1'' ''i-1'' ''pending'' (Date 10), BeginTransaction,
      ListInstances ''us-east-1'' ''i-1'' 0, CommitTransaction 0, DescribeInstances [''i-1'']] \<and>
   instances (snd (handler example_listener
         (no_faults\<lparr>describeInstances_r :=
            Inl (Failure (Some ''InvalidInstanceID.NotFound'') ''not found'')\<rparr>)
         (example_msg ''pending'' 10) empty_world)) = Map.empty \<and>
   metrics (snd (handler example_listener
         (no_faults\<lparr>describeInstances_r :=
            Inl (Failure (Some ''InvalidInstanceID.NotFound'') ''not found'')\<rparr>)
         (example_msg ''pending'' 10) empty_world)) =
     [Count ''global.api-lag'' 1, Count ''us-east-1.api-lag'' 1]"
  using api_lookup_failure
    [of example_listener
        "no_faults\<lparr>describeInstances_r :=
            Inl (Failure (Some ''InvalidInstanceID.NotFound'') ''not found'')\<rparr>"
        "example_msg ''pending'' 10" empty_world
        "fst (handler example_listener
           (no_faults\<lparr>describeInstances_r :=
              Inl (Failure (Some ''InvalidInstanceID.NotFound'') ''not found'')\<rparr>)
           (example_msg ''pending'' 10) empty_world)"
        "snd (handler example_listener
           (no_faults\<lparr>describeInstances_r :=
              Inl (Failure (Some ''InvalidInstanceID.NotFound'') ''not found'')\<rparr>)
           (example_msg ''pending'' 10) empty_world)"
        "Failure (Some ''InvalidInstanceID.NotFound'') ''not found''"]
  by (simp add: example_defs audit_reports_def lookup_calls_def)

text \<open>
  C9.  No row is found and the state is neither pending nor running.  After the commit
  that closes the lookup's transaction the handler calls \<^verbatim>\<open>removeInstance\<close> for
  \<open>(region, id)\<close> without a transaction and without any further test; it calls neither
  \<^verbatim>\<open>describeInstances\<close> nor the tagger nor \<^verbatim>\<open>upsertInstance\<close>.  The instance table is the
  same afterwards (there was no row to remove), and when the commit and the removal
  succeed the handler returns normally.  On any world the removal, when it succeeds,
  leaves no row for \<open>(region, id)\<close> and touches no other row.
\<close>

theorem terminal_without_record:
  assumes run: "handler this f body w = (res, w')"
    and "beginTransaction_f f = None" and "listInstances_f f = None"
    and "instances w (msg_region body, msg_instance_id body) = None"
    and "msg_state body \<noteq> ''pending''" and "msg_state body \<noteq> ''running''"
  shows "calls w' = calls w @ lookup_calls body (next_transaction w) @
           [CommitTransaction (next_transaction w)] @
           (if commitTransaction_f f = None
            then [RemoveInstance (msg_region body) (msg_instance_id body) None] else []) \<and>
         instances w' = instances w \<and>
         (commitTransaction_f f = None \<and> removeInstance_f f = None \<longrightarrow> res = Inr ()) \<and>
         (\<forall>v. removeInstance_f f = None \<longrightarrow>
            instances (snd (handler_remove f (msg_region body) (msg_instance_id body) v)) =
              (instances v)((msg_region body, msg_instance_id body) := None))"
proof -
  have res: "res = fst (handler this f body w)" and w': "w' = snd (handler this f body w)"
    using run by simp_all
  show ?thesis
    unfolding res w' using assms(2-)
    by (auto simp add: handler_defs handler_audit_eq split: option.splits)
qed

theorem terminal_without_record_witness:
  "calls (snd (handler example_listener no_faults (example_msg ''terminated'' 10) empty_world)) =
     [LogCloudWatchEvent ''us-east-1'' ''i-1'' ''terminated'' (Date 10), BeginTransaction,
      ListInstances ''us-east-1'' ''i-1'' 0, CommitTransaction 0,
      RemoveInstance ''us-east-1'' ''i-1'' None] \<and>
   instances (snd (handler example_listener no_faults (example_msg ''terminated'' 10) empty_world))
     = Map.empty \<and>
   fst (handler example_listener no_faults (example_msg ''terminated'' 10) empty_world) = Inr () \<and>
   instances (snd (handler_remove no_faults ''us-east-1'' ''i-1'' tracking_world))
     (''us-east-1'', ''i-1'') = None"
  using terminal_without_record
    [of example_listener no_faults "example_msg ''terminated'' 10" empty_world
        "fst (handler example_listener no_faults (example_msg ''terminated'' 10) empty_world)"
        "snd (handler example_listener no_faults (example_msg ''terminated'' 10) empty_world)"]
  by (simp add: example_defs lookup_calls_def)

subsection \<open>The key name\<close>

lemma split_str_no_sep: "sep \<notin> set s \<Longrightarrow> split_str sep s = [s]"
  by (induction s) auto

lemma split_str_sep:
  "sep \<notin> set p \<Longrightarrow> split_str sep (p @ sep # rest) = p # split_str sep rest"
  by (induction p) auto

lemma hd_split_str: "\<exists>xs. split_str sep s = takeWhile (\<lambda>c. c \<noteq> sep) s # xs"
  by (induction s) auto

lemma takeWhile_no_sep: "sep \<notin> set s \<Longrightarrow> takeWhile (\<lambda>c. c \<noteq> sep) s = s"
  by (induction s) auto

lemma dropWhile_no_sep: "sep \<notin> set s \<Longrightarrow> dropWhile (\<lambda>c. c \<noteq> sep) (s @ sep # rest) = sep # rest"
  by (induction s) auto

lemma split_KeyName_no_sep:
  "CHR '':'' \<notin> set key \<Longrightarrow> split_KeyName key = (Some key, None)"
  by (simp add: split_KeyName_def split_str_no_sep)

lemma split_KeyName_sep:
  assumes "CHR '':'' \<notin> set p"
  shows "split_KeyName (p @ CHR '':'' # rest) =
           (Some p, Some (takeWhile (\<lambda>c. c \<noteq> CHR '':'') rest))"
proof -
  obtain xs where "split_str CHR '':'' rest = takeWhile (\<lambda>c. c \<noteq> CHR '':'') rest # xs"
    using hd_split_str by blast
  with assms show ?thesis
    by (simp add: split_KeyName_def split_str_sep)
qed

lemma no_sep_if_filter_empty: "filter (\<lambda>c. c = sep) s = [] \<Longrightarrow> sep \<notin> set s"
  by (induction s) (auto split: if_splits)

lemma one_sep_decompose:
  assumes "sep \<in> set s"
  shows "\<exists>p rest. s = p @ sep # rest \<and> sep \<notin> set p"
  using assms by (metis split_list_first)

lemma split_at_first_separator_sep:
  assumes "CHR '':'' \<notin> set p"
  shows "split_at_first_separator (p @ CHR '':'' # rest) = (Some p, Some rest)"
proof -
  have "takeWhile (\<lambda>c. c \<noteq> CHR '':'') (p @ CHR '':'' # rest) = p"
    using assms by (simp add: takeWhile_tail takeWhile_no_sep)
  moreover have "dropWhile (\<lambda>c. c \<noteq> CHR '':'') (p @ CHR '':'' # rest) = CHR '':'' # rest"
    using assms by (simp add: dropWhile_no_sep)
  ultimately show ?thesis
    by (simp add: split_at_first_separator_def)
qed



lemma split_KeyName_one_sep:
  assumes le: "length (filter (\<lambda>c. c = CHR '':'') key) \<le> 1" and True: "CHR '':'' \<in> set key"
  shows "split_KeyName key = split_at_first_separator key"
proof -
    from one_sep_decompose [OF True]
    obtain p rest where key: "key = p @ CHR '':'' # rest" and p: "CHR '':'' \<notin> set p"
      by auto
    have fp: "filter (\<lambda>c. c = CHR '':'') p = []"
      using p by (induction p) auto
    have "length (filter (\<lambda>c. c = CHR '':'') key) =
          Suc (length (filter (\<lambda>c. c = CHR '':'') rest))"
      unfolding key by (simp add: fp)
    with le have "length (filter (\<lambda>c. c = CHR '':'') rest) = 0" by linarith
    then have "filter (\<lambda>c. c = CHR '':'') rest = []" by simp
    then have "CHR '':'' \<notin> set rest" by (rule no_sep_if_filter_empty)
    then have tw: "takeWhile (\<lambda>c. c \<noteq> CHR '':'') rest = rest" by (rule takeWhile_no_sep)
    have "split_KeyName (p @ CHR '':'' # rest) = (Some p, Some rest)"
      using split_KeyName_sep [OF p, of rest] tw by simp
    moreover have "split_at_first_separator (p @ CHR '':'' # rest) = (Some p, Some rest)"
      using p by (rule split_at_first_separator_sep)
    ultimately show ?thesis
      unfolding key by simp
qed


text \<open>
  C5 (amended).  The claim: the key-pair name is split at its first separator only, so
  that the worker type is everything after the first colon.  The code calls
  \<^verbatim>\<open>split(':')\<close>, which cuts at every colon, and keeps the first two pieces: the
  provisioner id is the text before the first colon and the worker type is the text
  between the first and the second colon (up to the end if there is no second colon);
  whatever follows a second colon is dropped.  A key name without a colon gives no
  worker type, and the whole name as provisioner id.  For key names with at most one
  colon the code agrees with the split at the first separator.
\<close>

theorem key_name_split_at_every_separator:
  "(CHR '':'' \<notin> set key \<longrightarrow> split_KeyName key = (Some key, None)) \<and>
   (CHR '':'' \<notin> set p \<longrightarrow>
      split_KeyName (p @ CHR '':'' # rest) =
        (Some p, Some (takeWhile (\<lambda>c. c \<noteq> CHR '':'') rest))) \<and>
   (length (filter (\<lambda>c. c = CHR '':'') key) \<le> 1 \<longrightarrow>
      split_KeyName key = split_at_first_separator key)"
proof (intro conjI impI)
  assume "CHR '':'' \<notin> set key"
  then show "split_KeyName key = (Some key, None)" by (rule split_KeyName_no_sep)
next
  assume "CHR '':'' \<notin> set p"
  then show "split_KeyName (p @ CHR '':'' # rest) =
      (Some p, Some (takeWhile (\<lambda>c. c \<noteq> CHR '':'') rest))"
    by (rule split_KeyName_sep)
next
  assume le: "length (filter (\<lambda>c. c = CHR '':'') key) \<le> 1"
  show "split_KeyName key = split_at_first_separator key"
  proof (cases "CHR '':'' \<in> set key")
    case False
    then show ?thesis
      by (simp add: split_KeyName_no_sep split_at_first_separator_def takeWhile_no_sep)
  next
    case True
    with le show ?thesis by (rule split_KeyName_one_sep)
  qed
qed

theorem key_name_split_at_every_separator_witness:
  "split_KeyName ''abc'' = (Some ''abc'', None) \<and>
   split_KeyName ''aws-provisioner-v1:builder:abc'' = (Some ''aws-provisioner-v1'', Some ''builder'') \<and>
   split_KeyName ''aws-provisioner-v1:builder'' = split_at_first_separator ''aws-provisioner-v1:builder''"
  using key_name_split_at_every_separator [of "''abc''" "''aws-provisioner-v1''" "''builder:abc''"]
    key_name_split_at_every_separator [of "''aws-provisioner-v1:builder''" "[]" "[]"]
  by simp

text \<open>
  C5, the claim as stated fails: for the key name \<^verbatim>\<open>aws-provisioner-v1:builder:abc\<close> the
  worker type is \<^verbatim>\<open>builder\<close>, not \<^verbatim>\<open>builder:abc\<close>.
\<close>

theorem worker_type_is_second_piece:
  "snd (split_KeyName ''aws-provisioner-v1:builder:abc'') = Some ''builder'' \<and>
   snd (split_at_first_separator ''aws-provisioner-v1:builder:abc'') = Some ''builder:abc'' \<and>
   split_KeyName ''aws-provisioner-v1:builder:abc'' \<noteq>
     split_at_first_separator ''aws-provisioner-v1:builder:abc''"
  by (simp add: split_KeyName_def split_at_first_separator_def)

subsection \<open>Tagging and ownership\<close>

lemma hasTag_fold:
  "fold (\<lambda>tag hasTag. if fst tag = ''Owner'' then True else hasTag) tags b \<longleftrightarrow>
     b \<or> ''Owner'' \<in> fst ` set tags"
  by (induction tags arbitrary: b) auto

lemma missingTags_iff:
  "missingTags obj \<longleftrightarrow> (\<forall>tags. Tags obj = Some tags \<longrightarrow> ''Owner'' \<notin> fst ` set tags)"
  by (cases "Tags obj") (simp_all add: missingTags_def hasTag_fold)

text \<open>
  C6.  In the branch without a row and with state pending or running, when the
  descriptor is returned and the tagging call (if any) succeeds: \<^verbatim>\<open>upsertInstance\<close> is
  called, once and as the last call, exactly when the worker type taken from the key name
  is truthy and the provisioner id taken from it equals the listener's; its argument
  carries the fields of the descriptor and \<open>lastevent = generated\<close>, and when the upsert
  succeeds that row is in the table.  Otherwise there is no upsert call and the table is
  unchanged; in particular a key name without a colon never creates a row.  The listener's
  provisioner id is the key prefix given to the constructor without its trailing colon.
\<close>

theorem record_created_iff_owned:
  assumes run: "handler this f body w = (res, w')"
    and "beginTransaction_f f = None" and "listInstances_f f = None"
    and "commitTransaction_f f = None"
    and "instances w (msg_region body, msg_instance_id body) = None"
    and "msg_state body = ''pending'' \<or> msg_state body = ''running''"
    and "describeInstances_r f = Inr [[inst]]"
    and "KeyName inst = Some key"
    and "split_KeyName key = (provisionerId, wt)"
    and "tagResources_f f = None"
    and opt: "opt = \<lparr>workerType = wt, region = msg_region body, az = AvailabilityZone inst,
                   instanceType = InstanceType inst, imageId = ImageId inst,
                   instance_id = msg_instance_id body, state = msg_state body,
                   launched = LaunchTime inst,
                   srid = (if truthy (SpotInstanceRequestId inst)
                           then SpotInstanceRequestId inst else None),
                   lastevent = At (msg_time body)\<rparr>"
    and owned: "owned \<longleftrightarrow> truthy wt \<and> provisionerId = Some (this_provisionerId this)"
  shows "calls w' = calls w @ lookup_calls body (next_transaction w) @
           [CommitTransaction (next_transaction w), DescribeInstances [msg_instance_id body]] @
           (if truthy wt \<and> missingTags inst
            then [TagResources [msg_instance_id body] (case wt of Some x \<Rightarrow> x | None \<Rightarrow> [])
                    (msg_region body)]
            else []) @
           (if owned then [UpsertInstance opt] else []) \<and>
         (upsertInstance_f f = None \<longrightarrow>
            res = Inr () \<and>
            instances w' =
              (if owned then (instances w)((msg_region body, msg_instance_id body) \<mapsto> opt)
               else instances w)) \<and>
         (\<not> owned \<longrightarrow> res = Inr () \<and> instances w' = instances w) \<and>
         (CHR '':'' \<notin> set key \<longrightarrow> \<not> owned) \<and>
         (\<forall>keyPrefix. new_listener keyPrefix = Inr this \<longrightarrow>
            keyPrefix = this_provisionerId this @ '':'')"
proof -
  have res: "res = fst (handler this f body w)" and w': "w' = snd (handler this f body w)"
    using run by simp_all
  have nosep: "CHR '':'' \<notin> set key \<Longrightarrow> wt = None"
    using assms(9) by (simp add: split_KeyName_no_sep)
  have "calls (snd (handler this f body w)) =
           calls w @ lookup_calls body (next_transaction w) @
           [CommitTransaction (next_transaction w), DescribeInstances [msg_instance_id body]] @
           (if truthy wt \<and> missingTags inst
            then [TagResources [msg_instance_id body] (case wt of Some x \<Rightarrow> x | None \<Rightarrow> [])
                    (msg_region body)]
            else []) @
           (if owned then [UpsertInstance opt] else []) \<and>
         (upsertInstance_f f = None \<longrightarrow>
            fst (handler this f body w) = Inr () \<and>
            instances (snd (handler this f body w)) =
              (if owned then (instances w)((msg_region body, msg_instance_id body) \<mapsto> opt)
               else instances w)) \<and>
         (\<not> owned \<longrightarrow>
            fst (handler this f body w) = Inr () \<and>
            instances (snd (handler this f body w)) = instances w) \<and>
         (CHR '':'' \<notin> set key \<longrightarrow> \<not> owned)"
    unfolding opt using assms(2-10) owned nosep
    by (cases "upsertInstance_f f") (auto simp add: handler_defs handler_audit_eq)
  moreover have "keyPrefix = this_provisionerId this @ '':''"
    if "new_listener keyPrefix = Inr this" for keyPrefix
  proof -
    from that have ne: "keyPrefix \<noteq> []" and la: "last keyPrefix = CHR '':''"
      and pid: "this_provisionerId this = take (length keyPrefix - 1) keyPrefix"
      by (auto simp add: new_listener_def split: if_splits)
    have "butlast keyPrefix @ [last keyPrefix] = keyPrefix"
      using ne by (rule append_butlast_last_id)
    then show ?thesis
      by (simp add: pid la butlast_conv_take)
  qed
  ultimately show ?thesis
    unfolding res w' by simp
qed


theorem record_created_iff_owned_witness:
  "fst (handler example_listener (no_faults\<lparr>describeInstances_r := Inr [[example_instance]]\<rparr>)
         (example_msg ''pending'' 10) empty_world) = Inr () \<and>
   calls (snd (handler example_listener
         (no_faults\<lparr>describeInstances_r := Inr [[example_instance]]\<rparr>)
         (example_msg ''pending'' 10) empty_world)) =
     [LogCloudWatchEvent ''us-east-1'' ''i-1'' ''pending'' (Date 10), BeginTransaction,
      ListInstances ''us-east-1'' ''i-1'' 0, CommitTransaction 0, DescribeInstances [''i-1''],
      TagResources [''i-1''] ''builder'' ''us-east-1'',
      UpsertInstance (example_row\<lparr>lastevent := At (Date 10)\<rparr>)] \<and>
   instances (snd (handler example_listener
         (no_faults\<lparr>describeInstances_r := Inr [[example_instance]]\<rparr>)
         (example_msg ''pending'' 10) empty_world)) =
     [(''us-east-1'', ''i-1'') \<mapsto> example_row\<lparr>lastevent := At (Date 10)\<rparr>] \<and>
   instances (snd (handler example_listener
         (no_faults\<lparr>describeInstances_r := Inr [[example_instance\<lparr>KeyName := Some ''laptop''\<rparr>]]\<rparr>)
         (example_msg ''pending'' 10) empty_world)) = Map.empty \<and>
   new_listener ''aws-provisioner-v1:'' = Inr example_listener"
proof -
  let ?fa = "no_faults\<lparr>describeInstances_r := Inr [[example_instance]]\<rparr>"
  let ?fb = "no_faults\<lparr>describeInstances_r :=
               Inr [[example_instance\<lparr>KeyName := Some ''laptop''\<rparr>]]\<rparr>"
  let ?A = "handler example_listener ?fa (example_msg ''pending'' 10) empty_world"
  let ?B = "handler example_listener ?fb (example_msg ''pending'' 10) empty_world"
  have ka: "split_KeyName ''aws-provisioner-v1:builder:abc'' =
              (Some ''aws-provisioner-v1'', Some ''builder'')"
    and kb: "split_KeyName ''laptop'' = (Some ''laptop'', None)"
    by (simp_all add: split_KeyName_def)
  have a: "fst ?A = Inr () \<and>
     calls (snd ?A) =
       [LogCloudWatchEvent ''us-east-1'' ''i-1'' ''pending'' (Date 10), BeginTransaction,
        ListInstances ''us-east-1'' ''i-1'' 0, CommitTransaction 0, DescribeInstances [''i-1''],
        TagResources [''i-1''] ''builder'' ''us-east-1'',
        UpsertInstance (example_row\<lparr>lastevent := At (Date 10)\<rparr>)] \<and>
     instances (snd ?A) = [(''us-east-1'', ''i-1'') \<mapsto> example_row\<lparr>lastevent := At (Date 10)\<rparr>]"
    using record_created_iff_owned
      [where this = example_listener and f = ?fa and body = "example_msg ''pending'' 10"
         and w = empty_world and res = "fst ?A" and w' = "snd ?A" and inst = example_instance
         and key = "''aws-provisioner-v1:builder:abc''"
         and provisionerId = "Some ''aws-provisioner-v1''" and wt = "Some ''builder''"
         and opt = "example_row\<lparr>lastevent := At (Date 10)\<rparr>" and owned = True]
    by (simp add: example_defs lookup_calls_def ka missingTags_def)
  have b: "instances (snd ?B) = Map.empty"
    using record_created_iff_owned
      [where this = example_listener and f = ?fb and body = "example_msg ''pending'' 10"
         and w = empty_world and res = "fst ?B" and w' = "snd ?B"
         and inst = "example_instance\<lparr>KeyName := Some ''laptop''\<rparr>"
         and key = "''laptop''"
         and provisionerId = "Some ''laptop''" and wt = None
         and opt = "example_row\<lparr>workerType := None, lastevent := At (Date 10)\<rparr>" and owned = False]
    by (simp add: example_defs kb)
  have c: "new_listener ''aws-provisioner-v1:'' = Inr example_listener"
    by (simp add: new_listener_def example_listener_def)
  show ?thesis using a b c by simp
qed

text \<open>
  C8 (amended).  In the branch without a row and with state pending or running, the
  tagger is called exactly when the worker type taken from the key name is truthy and the
  instance carries no tag with key \<^verbatim>\<open>Owner\<close>, whether or not the provisioner id matches,
  and before the upsert.  The call is awaited outside any \<^verbatim>\<open>try\<close>: when it is rejected
  the handler raises its error, \<^verbatim>\<open>upsertInstance\<close> is not called and the instance table is
  unchanged.
\<close>

theorem tagging_before_upsert:
  assumes run: "handler this f body w = (res, w')"
    and "beginTransaction_f f = None" and "listInstances_f f = None"
    and "commitTransaction_f f = None"
    and "instances w (msg_region body, msg_instance_id body) = None"
    and "msg_state body = ''pending'' \<or> msg_state body = ''running''"
    and "describeInstances_r f = Inr [[inst]]"
    and "KeyName inst = Some key"
    and "split_KeyName key = (provisionerId, wt)"
    and opt: "opt = \<lparr>workerType = wt, region = msg_region body, az = AvailabilityZone inst,
                   instanceType = InstanceType inst, imageId = ImageId inst,
                   instance_id = msg_instance_id body, state = msg_state body,
                   launched = LaunchTime inst,
                   srid = (if truthy (SpotInstanceRequestId inst)
                           then SpotInstanceRequestId inst else None),
                   lastevent = At (msg_time body)\<rparr>"
    and tagged: "tagged \<longleftrightarrow> truthy wt \<and> missingTags inst"
  shows "calls w' = calls w @ lookup_calls body (next_transaction w) @
           [CommitTransaction (next_transaction w), DescribeInstances [msg_instance_id body]] @
           (if tagged
            then [TagResources [msg_instance_id body] (case wt of Some x \<Rightarrow> x | None \<Rightarrow> [])
                    (msg_region body)]
            else []) @
           (if tagged \<and> tagResources_f f \<noteq> None then []
            else if truthy wt \<and> provisionerId = Some (this_provisionerId this)
            then [UpsertInstance opt] else []) \<and>
         (\<forall>e. tagged \<and> tagResources_f f = Some e \<longrightarrow> res = Inl e \<and> instances w' = instances w) \<and>
         (missingTags inst \<longleftrightarrow>
            (\<forall>tags. Tags inst = Some tags \<longrightarrow> ''Owner'' \<notin> fst ` set tags))"
proof -
  have res: "res = fst (handler this f body w)" and w': "w' = snd (handler this f body w)"
    using run by simp_all
  have "calls (snd (handler this f body w)) = calls w @ lookup_calls body (next_transaction w) @
           [CommitTransaction (next_transaction w), DescribeInstances [msg_instance_id body]] @
           (if tagged
            then [TagResources [msg_instance_id body] (case wt of Some x \<Rightarrow> x | None \<Rightarrow> [])
                    (msg_region body)]
            else []) @
           (if tagged \<and> tagResources_f f \<noteq> None then []
            else if truthy wt \<and> provisionerId = Some (this_provisionerId this)
            then [UpsertInstance opt] else []) \<and>
         (\<forall>e. tagged \<and> tagResources_f f = Some e \<longrightarrow>
            fst (handler this f body w) = Inl e \<and>
            instances (snd (handler this f body w)) = instances w)"
    unfolding opt using assms(2-9) tagged
    by (cases "upsertInstance_f f"; cases "tagResources_f f")
       (auto simp add: handler_defs handler_audit_eq)
  then show ?thesis
    unfolding res w' using missingTags_iff by blast
qed


theorem tagging_before_upsert_witness:
  "fst (handler example_listener
         (no_faults\<lparr>describeInstances_r := Inr [[example_instance]],
            tagResources_f := Some (Failure (Some ''RequestLimitExceeded'') ''throttled'')\<rparr>)
         (example_msg ''running'' 10) empty_world) =
     Inl (Failure (Some ''RequestLimitExceeded'') ''throttled'') \<and>
   calls (snd (handler example_listener
         (no_faults\<lparr>describeInstances_r := Inr [[example_instance]],
            tagResources_f := Some (Failure (Some ''RequestLimitExceeded'') ''throttled'')\<rparr>)
         (example_msg ''running'' 10) empty_world)) =
     [LogCloudWatchEvent ''us-east-1'' ''i-1'' ''running'' (Date 10), BeginTransaction,
      ListInstances ''us-east-1'' ''i-1'' 0, CommitTransaction 0, DescribeInstances [''i-1''],
      TagResources [''i-1''] ''builder'' ''us-east-1''] \<and>
   instances (snd (handler example_listener
         (no_faults\<lparr>describeInstances_r := Inr [[example_instance]],
            tagResources_f := Some (Failure (Some ''RequestLimitExceeded'') ''throttled'')\<rparr>)
         (example_msg ''running'' 10) empty_world)) = Map.empty"
proof -
  let ?f = "no_faults\<lparr>describeInstances_r := Inr [[example_instance]],
            tagResources_f := Some (Failure (Some ''RequestLimitExceeded'') ''throttled'')\<rparr>"
  let ?A = "handler example_listener ?f (example_msg ''running'' 10) empty_world"
  have k: "split_KeyName ''aws-provisioner-v1:builder:abc'' =
              (Some ''aws-provisioner-v1'', Some ''builder'')"
    by (simp add: split_KeyName_def)
  show ?thesis
    using tagging_before_upsert
      [where this = example_listener and f = ?f and body = "example_msg ''running'' 10"
         and w = empty_world and res = "fst ?A" and w' = "snd ?A" and inst = example_instance
         and key = "''aws-provisioner-v1:builder:abc''"
         and provisionerId = "Some ''aws-provisioner-v1''" and wt = "Some ''builder''"
         and opt = "example_row\<lparr>state := ''running'', lastevent := At (Date 10)\<rparr>"
         and tagged = True]
    by (simp add: example_defs lookup_calls_def k missingTags_def)
qed

text \<open>
  C8, the claim as stated fails: for an untagged instance of this provisioner whose
  tagging call is rejected, the handler raises the tagger's error and no row is created.
\<close>

theorem tagging_failure_prevents_upsert:
  "fst (handler example_listener
         (no_faults\<lparr>describeInstances_r := Inr [[example_instance]],
            tagResources_f := Some (Failure None ''tagging failed'')\<rparr>)
         (example_msg ''pending'' 10) empty_world) = Inl (Failure None ''tagging failed'') \<and>
   calls (snd (handler example_listener
         (no_faults\<lparr>describeInstances_r := Inr [[example_instance]],
            tagResources_f := Some (Failure None ''tagging failed'')\<rparr>)
         (example_msg ''pending'' 10) empty_world)) =
     [LogCloudWatchEvent ''us-east-1'' ''i-1'' ''pending'' (Date 10), BeginTransaction,
      ListInstances ''us-east-1'' ''i-1'' 0, CommitTransaction 0, DescribeInstances [''i-1''],
      TagResources [''i-1''] ''builder'' ''us-east-1''] \<and>
   instances (snd (handler example_listener
         (no_faults\<lparr>describeInstances_r := Inr [[example_instance]],
            tagResources_f := Some (Failure None ''tagging failed'')\<rparr>)
         (example_msg ''pending'' 10) empty_world)) (''us-east-1'', ''i-1'') = None"
  by (simp add: handler_defs handler_audit_eq audit_reports_def example_defs split_KeyName_def
      missingTags_def)

subsection \<open>Closing the transaction\<close>











end
